theory Spec2Isabelle
  imports Main "HOL-Library.Word" "HOL-Library.Signed_Division"
begin

section \<open>Conventions\<close>

text \<open>
  The development embeds the parts of quorate that carry its logic: the trigger matcher
  and the candidate ranker of the main file (release 1.0.4), and the throttled client of
  \<^verbatim>\<open>internal/ns-client/ns-client.go\<close> with the structures of
  \<^verbatim>\<open>xml-structs.go\<close>.

  Go's \<^verbatim>\<open>int64\<close> and \<^verbatim>\<open>int\<close> (on a 64-bit platform) are 64-bit words:
  \<open>+\<close>, \<open>-\<close> and \<open>*\<close> wrap around as Go's do, the comparisons are the signed ones
  (\<open><s\<close>, \<open>\<le>s\<close>), and \<open>sint\<close> reads the value. Go strings are byte strings.
  A run-time panic is a value of type \<open>panic\<close>; a Go \<^verbatim>\<open>error\<close> is a
  value of type \<open>go_error\<close>.
\<close>

type_synonym int64 = "64 word"

datatype panic = IndexOutOfRange | IntegerDivideByZero

section \<open>The main file: candidates and the region dump\<close>

record Hit =
  Name :: string
  Delegate :: string
  SecondNation :: string
  IsDeltip :: bool
  UpdateTime :: int64
  TriggerRegion :: string
  TriggerTime :: int64

text \<open>The fields of \<^verbatim>\<open>RegionDump\<close> carry the prefix \<open>rd_\<close>.\<close>

record RegionDump =
  rd_Name :: string
  rd_LastMinor :: int64
  rd_LastMajor :: int64

text \<open>
  \<^verbatim>\<open>strings.ToLower\<close>. On a string of ASCII bytes it maps the bytes \<open>A\<close> to
  \<open>Z\<close> to \<open>a\<close> to \<open>z\<close> and keeps the others. On any other string the result
  comes from the library's Unicode tables, which are not part of the program: the
  parameter \<open>lower\<close> stands for the library there, and nothing is assumed of it.
  \<^verbatim>\<open>strings.Replace(strings.ToLower(name), " ", "_", -1)\<close> then turns every space
  into an underscore.
\<close>

definition ToLower :: "(string \<Rightarrow> string) \<Rightarrow> string \<Rightarrow> string" where
  "ToLower lower s =
     (if list_all (\<lambda>c. \<not> digit7 c) s then
        map (\<lambda>c. case map_of (zip ''ABCDEFGHIJKLMNOPQRSTUVWXYZ'' ''abcdefghijklmnopqrstuvwxyz'') c of
                   Some l \<Rightarrow> l
                 | None \<Rightarrow> c) s
      else lower s)"

definition canonName :: "(string \<Rightarrow> string) \<Rightarrow> string \<Rightarrow> string" where
  "canonName lower name =
     map (\<lambda>c. if c = CHR '' '' then CHR ''_'' else c) (ToLower lower name)"

text \<open>The update time of a dump record for the chosen update.\<close>

definition regionUpdate :: "bool \<Rightarrow> RegionDump \<Rightarrow> int64" where
  "regionUpdate isMinor region = (if isMinor then rd_LastMinor region else rd_LastMajor region)"

subsection \<open>The backward probe\<close>

text \<open>
  The inner loop \<^verbatim>\<open>for i := 0; true; i++\<close> of the matcher. It probes
  \<^verbatim>\<open>regionUpdate - int64(minimumTrigger+i)\<close> in the index, and leaves with the
  first indexed time, or with the first record of the dump once the probe is not after
  that record's time. The subtraction wraps around, so the probe ends on every input: it
  cannot pass the first record's time without meeting it.
\<close>

function probe :: "(int64 \<rightharpoonup> string) \<Rightarrow> int64 \<Rightarrow> string \<Rightarrow> int64 \<Rightarrow> int64 \<Rightarrow> int64 \<Rightarrow> int64 \<times> string" where
  "probe updateTimes firstUpdateTime firstUpdateRegion upd minimumTrigger i =
     (let trigTime = upd - (minimumTrigger + i) in
      case updateTimes trigTime of
        Some trigRegion \<Rightarrow> (trigTime, trigRegion)
      | None \<Rightarrow>
          if trigTime \<le>s firstUpdateTime then (firstUpdateTime, firstUpdateRegion)
          else probe updateTimes firstUpdateTime firstUpdateRegion upd minimumTrigger (i + 1))"
  by pat_completeness auto
termination
proof (relation "measure (\<lambda>(updateTimes, firstUpdateTime, firstUpdateRegion, upd, minimumTrigger, i).
        unat (upd - (minimumTrigger + i) - firstUpdateTime))")
  fix updateTimes :: "int64 \<rightharpoonup> string" and firstUpdateTime upd minimumTrigger i trigTime :: int64
    and firstUpdateRegion :: string
  assume t: "trigTime = upd - (minimumTrigger + i)" and far: "\<not> trigTime \<le>s firstUpdateTime"
  let ?x = "trigTime - firstUpdateTime"
  from far have "?x \<noteq> 0" by auto
  then have less: "unat (?x - 1) < unat ?x"
    by (simp add: unat_minus_one unat_gt_0)
  have next_probe: "upd - (minimumTrigger + (i + 1)) - firstUpdateTime = ?x - 1"
    using t by simp
  from less have "unat (upd - (minimumTrigger + (i + 1)) - firstUpdateTime) < unat ?x"
    by (simp only: next_probe)
  then show "((updateTimes, firstUpdateTime, firstUpdateRegion, upd, minimumTrigger, i + 1),
        (updateTimes, firstUpdateTime, firstUpdateRegion, upd, minimumTrigger, i))
      \<in> measure (\<lambda>(updateTimes, firstUpdateTime, firstUpdateRegion, upd, minimumTrigger, i).
            unat (upd - (minimumTrigger + i) - firstUpdateTime))"
    by (simp add: t)
qed simp

declare probe.simps [simp del]

subsection \<open>The matching pass\<close>

text \<open>
  The lookahead of the pass (``edge case where region doesn't exit in daily dump''):
  \<^verbatim>\<open>if hitIndex != len(hittable)-1 && canonName == hittable[hitIndex+1].Name { hitIndex++ }\<close>.
  A read outside the slice is Go's index panic.
\<close>

definition lookahead :: "string \<Rightarrow> Hit list \<Rightarrow> nat \<Rightarrow> panic + nat" where
  "lookahead canon hittable hitIndex =
     (if int hitIndex \<noteq> int (length hittable) - 1 then
        (if hitIndex + 1 < length hittable then
           Inr (if canon = Name (hittable ! (hitIndex + 1)) then hitIndex + 1 else hitIndex)
         else Inl IndexOutOfRange)
      else Inr hitIndex)"

text \<open>The index keeps the first region seen with a time.\<close>

definition remember :: "(int64 \<rightharpoonup> string) \<Rightarrow> int64 \<Rightarrow> string \<Rightarrow> (int64 \<rightharpoonup> string)" where
  "remember updateTimes upd canon =
     (case updateTimes upd of None \<Rightarrow> updateTimes(upd \<mapsto> canon) | Some _ \<Rightarrow> updateTimes)"

text \<open>
  The loop \<^verbatim>\<open>for _, region := range regions\<close>, with the candidates, the cursor and
  the index passed along. The result is the candidate list as the pass leaves it.
\<close>

fun match_loop :: "(string \<Rightarrow> string) \<Rightarrow> bool \<Rightarrow> int64 \<Rightarrow> int64 \<Rightarrow> string \<Rightarrow> RegionDump list \<Rightarrow> Hit list \<Rightarrow> nat \<Rightarrow>
    (int64 \<rightharpoonup> string) \<Rightarrow> panic + Hit list" where
  "match_loop lower isMinor minimumTrigger firstUpdateTime firstUpdateRegion [] hittable hitIndex updateTimes =
     Inr hittable"
| "match_loop lower isMinor minimumTrigger firstUpdateTime firstUpdateRegion (region # regions) hittable hitIndex updateTimes =
     (let canon = canonName lower (rd_Name region) in
      if hitIndex = length hittable then Inr hittable
      else
        let upd = regionUpdate isMinor region;
            updateTimes' = remember updateTimes upd canon
        in case lookahead canon hittable hitIndex of
             Inl p \<Rightarrow> Inl p
           | Inr hitIndex' \<Rightarrow>
               if hitIndex' < length hittable then
                 (if canon = Name (hittable ! hitIndex') then
                    (case probe updateTimes' firstUpdateTime firstUpdateRegion upd minimumTrigger 0 of
                       (trigTime, trigRegion) \<Rightarrow>
                         match_loop lower isMinor minimumTrigger firstUpdateTime firstUpdateRegion regions
                           (hittable[hitIndex' := (hittable ! hitIndex')
                              \<lparr>UpdateTime := upd, TriggerRegion := trigRegion, TriggerTime := trigTime\<rparr>])
                           (hitIndex' + 1) updateTimes')
                  else
                    match_loop lower isMinor minimumTrigger firstUpdateTime firstUpdateRegion regions
                      hittable hitIndex' updateTimes')
               else Inl IndexOutOfRange)"

text \<open>
  The pass as the main function runs it: \<^verbatim>\<open>regions[0]\<close> is read before the loop,
  so an empty dump is an index panic.
\<close>

definition trigger_matcher :: "(string \<Rightarrow> string) \<Rightarrow> bool \<Rightarrow> int64 \<Rightarrow> RegionDump list \<Rightarrow> Hit list \<Rightarrow> panic + Hit list" where
  "trigger_matcher lower isMinor minimumTrigger regions hittable =
     (case regions of
        [] \<Rightarrow> Inl IndexOutOfRange
      | first # _ \<Rightarrow>
          match_loop lower isMinor minimumTrigger (regionUpdate isMinor first) (rd_Name first)
            regions hittable 0 Map.empty)"

text \<open>
  The candidate the ranker appends for a region that can be hit as it is:
  \<^verbatim>\<open>Hit{Name: region, Delegate: approval, IsDeltip: false, UpdateTime: updateTime}\<close>,
  the other fields at their zero values.
\<close>

definition direct_hit :: "string \<Rightarrow> string \<Rightarrow> int64 \<Rightarrow> Hit" where
  "direct_hit region approval updateTime =
     \<lparr>Name = region, Delegate = approval, SecondNation = '''', IsDeltip = False,
      UpdateTime = updateTime, TriggerRegion = '''', TriggerTime = 0\<rparr>"

text \<open>
  The candidate the ranker appends for a region that needs the runner-up's endorsement:
  the same with \<^verbatim>\<open>SecondNation\<close> and \<^verbatim>\<open>IsDeltip: true\<close>.
\<close>

definition deltip_hit :: "string \<Rightarrow> string \<Rightarrow> string \<Rightarrow> int64 \<Rightarrow> Hit" where
  "deltip_hit region approval secondNation updateTime =
     \<lparr>Name = region, Delegate = approval, SecondNation = secondNation, IsDeltip = True,
      UpdateTime = updateTime, TriggerRegion = '''', TriggerTime = 0\<rparr>"

section \<open>The client\<close>

subsection \<open>Errors, library functions\<close>

text \<open>
  An error made by \<^verbatim>\<open>errors.New\<close> or \<^verbatim>\<open>fmt.Errorf\<close> is its message. The
  errors of \<^verbatim>\<open>strconv\<close>, of \<^verbatim>\<open>httpClient.Do\<close>, of \<^verbatim>\<open>io.ReadAll\<close> and of
  \<^verbatim>\<open>xml.Unmarshal\<close> come from the library; the last three carry what the library
  reports.
\<close>

datatype go_error =
    ErrorString string
  | ErrSyntax
  | ErrRange
  | ClientError string
  | ReadError string
  | UnmarshalError string

text \<open>
  \<^verbatim>\<open>strconv.Atoi\<close>, as its documentation has it for a 64-bit \<^verbatim>\<open>int\<close>: an optional
  sign and decimal digits; a syntax error gives 0, a value out of range gives the nearest
  bound, each with an error. The client drops that error and keeps the value.
\<close>

definition digit :: "char \<Rightarrow> nat option" where
  "digit c = map_of (zip ''0123456789'' [0, 1, 2, 3, 4, 5, 6, 7, 8, 9]) c"

fun decimal :: "nat \<Rightarrow> string \<Rightarrow> nat option" where
  "decimal n [] = Some n"
| "decimal n (c # cs) = (case digit c of None \<Rightarrow> None | Some d \<Rightarrow> decimal (10 * n + d) cs)"

definition Atoi :: "string \<Rightarrow> int64 \<times> go_error option" where
  "Atoi s =
     (let neg = (s \<noteq> [] \<and> hd s = CHR ''-'');
          ds = (if s \<noteq> [] \<and> (hd s = CHR ''-'' \<or> hd s = CHR ''+'') then tl s else s)
      in if ds = [] then (0, Some ErrSyntax)
         else case decimal 0 ds of
                None \<Rightarrow> (0, Some ErrSyntax)
              | Some n \<Rightarrow>
                  if neg then
                    (if 2 ^ 63 < n then (word_of_int (- (2 ^ 63)), Some ErrRange)
                     else (word_of_int (- int n), None))
                  else
                    (if 2 ^ 63 \<le> n then (word_of_int (2 ^ 63 - 1), Some ErrRange)
                     else (word_of_nat n, None)))"

text \<open>
  Go's integer division: it truncates towards zero, and the most negative value divided by
  \<open>-1\<close> wraps around. A zero divisor is a panic, which the caller models.
\<close>

definition quo :: "int64 \<Rightarrow> int64 \<Rightarrow> int64" where
  "quo x y = word_of_int (sint x sdiv sint y)"

text \<open>\<^verbatim>\<open>strings.Split(s, sep)\<close> for a separator of one byte.\<close>

fun Split :: "string \<Rightarrow> char \<Rightarrow> string list" where
  "Split [] sep = [[]]"
| "Split (c # cs) sep =
     (if c = sep then [] # Split cs sep
      else case Split cs sep of w # ws \<Rightarrow> (c # w) # ws | [] \<Rightarrow> [[c]])"

text \<open>
  \<^verbatim>\<open>url.Values\<close> with \<^verbatim>\<open>Add\<close> and \<^verbatim>\<open>Set\<close>, as a list of keys with their
  values.
\<close>

type_synonym Values = "(string \<times> string list) list"

fun Add :: "Values \<Rightarrow> string \<Rightarrow> string \<Rightarrow> Values" where
  "Add [] key v = [(key, [v])]"
| "Add ((k, vs) # rest) key v =
     (if k = key then (k, vs @ [v]) # rest else (k, vs) # Add rest key v)"

fun Set_value :: "Values \<Rightarrow> string \<Rightarrow> string \<Rightarrow> Values" where
  "Set_value [] key v = [(key, [v])]"
| "Set_value ((k, vs) # rest) key v =
     (if k = key then (k, [v]) # rest else (k, vs) # Set_value rest key v)"

text \<open>
  A request as \<^verbatim>\<open>makeAPIRequest\<close> builds it, and a response as it reads it: the
  status, the header (\<^verbatim>\<open>Header.Get\<close> gives the empty string for a missing key;
  the keys are written as the client writes them) and what \<^verbatim>\<open>io.ReadAll\<close> makes of
  the body (the bytes, or the message of its error).
\<close>

record Request =
  Method :: string
  URL :: string
  UserAgent :: string
  ContentType :: string
  Form :: Values

record Response =
  StatusCode :: int64
  Status :: string
  Header :: "(string \<times> string) list"
  Body :: "string + string"

definition Get :: "(string \<times> string) list \<Rightarrow> string \<Rightarrow> string" where
  "Get header key = (case map_of header key of None \<Rightarrow> '''' | Some v \<Rightarrow> v)"

text \<open>
  What a call does besides returning: the requests it sends and the durations it sleeps,
  in order. A duration is an \<^verbatim>\<open>int64\<close> of nanoseconds.
\<close>

datatype event = Do Request | Sleep int64

definition Second :: int64 where
  "Second = 1000000000"

definition Millisecond :: int64 where
  "Millisecond = 1000000"

text \<open>
  A Go function returns its value with an error (\<open>None\<close> for \<^verbatim>\<open>nil\<close>), or panics.
\<close>

datatype 'a outcome = Return 'a "go_error option" | Panic panic

text \<open>
  The remote service is the list of what \<^verbatim>\<open>httpClient.Do\<close> gives at each call that
  is still to come: a response, or the message of a transport error. A call of the client
  consumes a prefix of it and yields its outcome, its events and the rest of the list;
  the outcome \<open>None\<close> says that the list ended while the call was still retrying.
\<close>

type_synonym server = "(string + Response) list"

type_synonym 'a call = "'a outcome option \<times> event list \<times> server"

subsection \<open>The XML structures\<close>

text \<open>
  The fields \<^verbatim>\<open>Inner\<close> and \<^verbatim>\<open>Name\<close> occur twice in the source; those of
  \<^verbatim>\<open>EndoCensusRanks\<close> and \<^verbatim>\<open>NationEndos\<close> carry a prefix here, as do the fields
  that \<^verbatim>\<open>RegionInfo\<close> shares with other structures.
\<close>

record Proposal =
  Id :: string
  Approvals :: string

record WaProposalList =
  Proposals :: "Proposal list"

record WaProposalsOuter =
  Inner :: WaProposalList

record RegionTags =
  TagArray :: "string list"

record NationEndos =
  ne_Name :: string
  Endos :: int64

record NationList =
  Nations :: "NationEndos list"

record EndoCensusRanks =
  ecr_Inner :: NationList

record RegionOuter =
  EndoRanks :: EndoCensusRanks
  Tags :: RegionTags
  LastMajor :: int64
  LastMinor :: int64

record NationRegion =
  Region :: string

record RegionInfo =
  DelEndos :: int64
  SecondEndos :: int64
  ri_SecondNation :: string
  Password :: bool
  ri_LastMajor :: int64
  ri_LastMinor :: int64

text \<open>The zero values of the structures.\<close>

definition zero_WaProposalsOuter :: WaProposalsOuter where
  "zero_WaProposalsOuter = \<lparr>Inner = \<lparr>Proposals = []\<rparr>\<rparr>"

definition zero_RegionOuter :: RegionOuter where
  "zero_RegionOuter =
     \<lparr>EndoRanks = \<lparr>ecr_Inner = \<lparr>Nations = []\<rparr>\<rparr>, Tags = \<lparr>TagArray = []\<rparr>, LastMajor = 0, LastMinor = 0\<rparr>"

definition zero_NationRegion :: NationRegion where
  "zero_NationRegion = \<lparr>Region = ''''\<rparr>"

definition zero_RegionInfo :: RegionInfo where
  "zero_RegionInfo =
     \<lparr>DelEndos = 0, SecondEndos = 0, ri_SecondNation = '''', Password = False,
      ri_LastMajor = 0, ri_LastMinor = 0\<rparr>"

subsection \<open>The throttled request executor\<close>

definition apiUrl :: string where
  "apiUrl = ''https://www.nationstates.net/cgi-bin/api.cgi''"

text \<open>
  The part of \<^verbatim>\<open>makeAPIRequest\<close> after the slowdown: the status check, the read of
  the body and the decoding. \<open>unmarshal\<close> stands for \<^verbatim>\<open>xml.Unmarshal\<close> at the
  expected type.
\<close>

definition decode :: "'a \<Rightarrow> (string \<Rightarrow> string + 'a) \<Rightarrow> Response \<Rightarrow> 'a outcome" where
  "decode zero unmarshal result =
     (if StatusCode result \<noteq> 200 then
        Return zero (Some (ErrorString (''bad status: '' @ Status result)))
      else case Body result of
             Inl err \<Rightarrow> Return zero (Some (ReadError err))
           | Inr bodyBytes \<Rightarrow>
               (case unmarshal bodyBytes of
                  Inl err \<Rightarrow> Return zero (Some (UnmarshalError err))
                | Inr k \<Rightarrow> Return k None))"

text \<open>
  \<^verbatim>\<open>httpClient.Do\<close> reads the body of the request to its end. The request is built
  once, before the loop, and nothing rewinds its body: at a later call the same request
  has no form data left to send. Whether the library then sends it without the form data
  or returns an error is the next answer of the server list.
\<close>

definition consumed :: "Request \<Rightarrow> Request" where
  "consumed req = req\<lparr>Form := []\<rparr>"

text \<open>
  The loop \<^verbatim>\<open>for { ... }\<close> of \<^verbatim>\<open>makeAPIRequest\<close>. Each turn hands the
  request as it then is to \<^verbatim>\<open>httpClient.Do\<close>. The division
  \<^verbatim>\<open>reset/remaining\<close> panics on a zero divisor.
\<close>

fun request_loop :: "'a \<Rightarrow> (string \<Rightarrow> string + 'a) \<Rightarrow> Request \<Rightarrow> server \<Rightarrow> 'a call" where
  "request_loop zero unmarshal req [] = (None, [], [])"
| "request_loop zero unmarshal req (answer # server) =
     (case answer of
        Inl err \<Rightarrow> (Some (Return zero (Some (ClientError err))), [Do req], server)
      | Inr result \<Rightarrow>
          if StatusCode result = 429 then
            (let retryAfter = Get (Header result) ''Retry-After'';
                 intRetry = fst (Atoi retryAfter)
             in case request_loop zero unmarshal (consumed req) server of
                  (out, events, server1) \<Rightarrow>
                    (out, Do req # Sleep (intRetry * Second) # events, server1))
          else
            (let remaining = fst (Atoi (Get (Header result) ''RateLimit-Remaining'')) in
             if remaining \<le>s 7 then
               (let reset = fst (Atoi (Get (Header result) ''RateLimit-Reset'')) in
                if remaining = 0 then (Some (Panic IntegerDivideByZero), [Do req], server)
                else (Some (decode zero unmarshal result),
                      [Do req, Sleep ((quo reset remaining + 1) * Second)], server))
             else (Some (decode zero unmarshal result), [Do req], server)))"

text \<open>
  The request that \<^verbatim>\<open>makeAPIRequest\<close> builds with \<^verbatim>\<open>http.NewRequest\<close> and
  the two \<^verbatim>\<open>Header.Add\<close>; its body is the encoded \<open>data\<close>. The constant method and
  address are well formed, so \<^verbatim>\<open>http.NewRequest\<close> gives no error.
\<close>

definition request_of :: "string \<Rightarrow> Values \<Rightarrow> Request" where
  "request_of userAgent data =
     \<lparr>Method = ''POST'', URL = apiUrl, UserAgent = userAgent,
      ContentType = ''application/x-www-form-urlencoded'', Form = data\<rparr>"

text \<open>\<^verbatim>\<open>makeAPIRequest\<close>. The user agent is the package variable.\<close>

definition makeAPIRequest :: "string \<Rightarrow> 'a \<Rightarrow> (string \<Rightarrow> string + 'a) \<Rightarrow> Values \<Rightarrow> server \<Rightarrow> 'a call" where
  "makeAPIRequest userAgent zero unmarshal data server =
     (if userAgent = '''' then
        (Some (Return zero (Some (ErrorString ''no user agent set''))), [], server)
      else request_loop zero unmarshal (request_of userAgent data) server)"

subsection \<open>The typed queries\<close>

text \<open>The loop \<^verbatim>\<open>for _, proposal := range ...\<close> with its return.\<close>

definition find_proposal :: "string \<Rightarrow> WaProposalsOuter \<Rightarrow> string list option" where
  "find_proposal proposalId xmlProposals =
     (case find (\<lambda>proposal. Id proposal = proposalId) (Proposals (Inner xmlProposals)) of
        None \<Rightarrow> None
      | Some proposal \<Rightarrow> Some (Split (Approvals proposal) CHR '':''))"

definition GetProposalApprovals :: "string \<Rightarrow> (string \<Rightarrow> string + WaProposalsOuter) \<Rightarrow> string \<Rightarrow> server \<Rightarrow>
    string list call" where
  "GetProposalApprovals userAgent unmarshal proposalId server =
     (let data = Add (Add [] ''wa'' ''2'') ''q'' ''proposals'' in
      case makeAPIRequest userAgent zero_WaProposalsOuter unmarshal data server of
        (None, events, server1) \<Rightarrow> (None, events, server1)
      | (Some (Panic p), events, server1) \<Rightarrow> (Some (Panic p), events, server1)
      | (Some (Return xmlProposals (Some err)), events, server1) \<Rightarrow>
          (Some (Return [] (Some err)), events, server1)
      | (Some (Return xmlProposals None), events, server1) \<Rightarrow>
          (case find_proposal proposalId xmlProposals of
             Some delegates \<Rightarrow> (Some (Return delegates None), events, server1)
           | None \<Rightarrow>
               (let data = Set_value data ''wa'' ''1'' in
                case makeAPIRequest userAgent zero_WaProposalsOuter unmarshal data server1 of
                  (None, events2, server2) \<Rightarrow> (None, events @ events2, server2)
                | (Some (Panic p), events2, server2) \<Rightarrow> (Some (Panic p), events @ events2, server2)
                | (Some (Return xmlProposals (Some err)), events2, server2) \<Rightarrow>
                    (Some (Return [] (Some err)), events @ events2, server2)
                | (Some (Return xmlProposals None), events2, server2) \<Rightarrow>
                    (case find_proposal proposalId xmlProposals of
                       Some delegates \<Rightarrow> (Some (Return delegates None), events @ events2, server2)
                     | None \<Rightarrow>
                         (Some (Return [] (Some (ErrorString ''proposal not found''))),
                          events @ events2, server2)))))"

definition GetRegioninfo :: "string \<Rightarrow> (string \<Rightarrow> string + RegionOuter) \<Rightarrow> string \<Rightarrow> server \<Rightarrow>
    RegionInfo call" where
  "GetRegioninfo userAgent unmarshal region server =
     (let data = Add (Add (Add [] ''region'' region) ''q''
                   ''censusranks+tags+lastmajorupdate+lastminorupdate'') ''scale'' ''66'' in
      case makeAPIRequest userAgent zero_RegionOuter unmarshal data server of
        (None, events, server1) \<Rightarrow> (None, events, server1)
      | (Some (Panic p), events, server1) \<Rightarrow> (Some (Panic p), events, server1)
      | (Some (Return xmlRegion (Some err)), events, server1) \<Rightarrow>
          (Some (Return zero_RegionInfo (Some err)), events, server1)
      | (Some (Return xmlRegion None), events, server1) \<Rightarrow>
          (let endoRanks = Nations (ecr_Inner (EndoRanks xmlRegion)) in
           if length endoRanks < 2 then
             (Some (Return zero_RegionInfo (Some (ErrorString ''how tf was this even triggered''))),
              events, server1)
           else
             (Some (Return
                     \<lparr>DelEndos = Endos (endoRanks ! 0),
                      SecondEndos = Endos (endoRanks ! 1),
                      ri_SecondNation = ne_Name (endoRanks ! 1),
                      Password = (''Password'' \<in> set (TagArray (Tags xmlRegion))),
                      ri_LastMajor = LastMajor xmlRegion,
                      ri_LastMinor = LastMinor xmlRegion\<rparr>
                     None), events, server1)))"

definition GetNationRegion :: "string \<Rightarrow> (string \<Rightarrow> string + NationRegion) \<Rightarrow> string \<Rightarrow> server \<Rightarrow>
    string call" where
  "GetNationRegion userAgent unmarshal nation server =
     (let data = Add (Add [] ''nation'' nation) ''q'' ''region'' in
      case makeAPIRequest userAgent zero_NationRegion unmarshal data server of
        (None, events, server1) \<Rightarrow> (None, events, server1)
      | (Some (Panic p), events, server1) \<Rightarrow> (Some (Panic p), events, server1)
      | (Some (Return xmlRegion (Some err)), events, server1) \<Rightarrow>
          (Some (Return '''' (Some err)), events, server1)
      | (Some (Return xmlRegion None), events, server1) \<Rightarrow>
          (Some (Return (Region xmlRegion) None), events, server1))"

section \<open>The main file: the candidate ranker\<close>

text \<open>
  The body of the loop over the approvals once the region's information is there: a
  region with a password is passed over (\<^verbatim>\<open>continue\<close>); any other region is appended
  as a direct hit, as a hit that needs the runner-up's endorsement, or not at all, and
  the loop sleeps for 1500 milliseconds.
\<close>

definition check_region :: "(string \<Rightarrow> string) \<Rightarrow> bool \<Rightarrow> int64 \<Rightarrow> string \<Rightarrow> string \<Rightarrow> RegionInfo \<Rightarrow> Hit list \<Rightarrow>
    Hit list \<times> event list" where
  "check_region lower isMinor maxEndoCount approval region regionInfo hittable =
     (if Password regionInfo then (hittable, [])
      else
        let region = canonName lower region;
            updateTime = (if isMinor then ri_LastMinor regionInfo else ri_LastMajor regionInfo)
        in
          (if DelEndos regionInfo <s maxEndoCount then
             hittable @ [direct_hit region approval updateTime]
           else if DelEndos regionInfo <s SecondEndos regionInfo + maxEndoCount then
             hittable @ [deltip_hit region approval (ri_SecondNation regionInfo) updateTime]
           else hittable,
           [Sleep (1500 * Millisecond)]))"

text \<open>
  The loop \<^verbatim>\<open>for _, approval := range approvals\<close>. An error of a query ends the
  program (\<^verbatim>\<open>log.Fatal\<close>).
\<close>

datatype stop = Fatal go_error | Crash panic

fun ranker :: "(string \<Rightarrow> string) \<Rightarrow> string \<Rightarrow> (string \<Rightarrow> string + NationRegion) \<Rightarrow> (string \<Rightarrow> string + RegionOuter) \<Rightarrow>
    bool \<Rightarrow> int64 \<Rightarrow> string list \<Rightarrow> Hit list \<Rightarrow> server \<Rightarrow>
    (stop + Hit list) option \<times> event list \<times> server" where
  "ranker lower userAgent unmarshalNation unmarshalRegion isMinor maxEndoCount [] hittable server =
     (Some (Inr hittable), [], server)"
| "ranker lower userAgent unmarshalNation unmarshalRegion isMinor maxEndoCount (approval # approvals) hittable server =
     (case GetNationRegion userAgent unmarshalNation approval server of
        (None, events, server1) \<Rightarrow> (None, events, server1)
      | (Some (Panic p), events, server1) \<Rightarrow> (Some (Inl (Crash p)), events, server1)
      | (Some (Return region (Some err)), events, server1) \<Rightarrow> (Some (Inl (Fatal err)), events, server1)
      | (Some (Return region None), events, server1) \<Rightarrow>
          (case GetRegioninfo userAgent unmarshalRegion region server1 of
             (None, events2, server2) \<Rightarrow> (None, events @ events2, server2)
           | (Some (Panic p), events2, server2) \<Rightarrow> (Some (Inl (Crash p)), events @ events2, server2)
           | (Some (Return regionInfo (Some err)), events2, server2) \<Rightarrow>
               (Some (Inl (Fatal err)), events @ events2, server2)
           | (Some (Return regionInfo None), events2, server2) \<Rightarrow>
               (case check_region lower isMinor maxEndoCount approval region regionInfo hittable of
                  (hittable', slept) \<Rightarrow>
                    (case ranker lower userAgent unmarshalNation unmarshalRegion isMinor maxEndoCount
                            approvals hittable' server2 of
                       (result, rest, server3) \<Rightarrow>
                         (result, events @ events2 @ slept @ rest, server3)))))"

section \<open>Example data\<close>

text \<open>
  Responses and decoders for the evaluations below: a response with status 429 and a
  \<^verbatim>\<open>Retry-After\<close> header, a response with status 200, a header and a body, and two
  stand-ins for \<^verbatim>\<open>xml.Unmarshal\<close> that know a few bodies by name. The names in the
  evaluations are ASCII, so that \<^verbatim>\<open>strings.ToLower\<close> never consults the library's
  tables; \<open>id\<close> is put in their place.
\<close>

definition throttled_response :: "string \<Rightarrow> Response" where
  "throttled_response retryAfter =
     \<lparr>StatusCode = 429, Status = ''429 Too Many Requests'',
      Header = [(''Retry-After'', retryAfter)], Body = Inr ''''\<rparr>"

definition ok_response :: "(string \<times> string) list \<Rightarrow> string \<Rightarrow> Response" where
  "ok_response header body =
     \<lparr>StatusCode = 200, Status = ''200 OK'', Header = header, Body = Inr body\<rparr>"

definition example_proposals :: "string \<Rightarrow> string + WaProposalsOuter" where
  "example_proposals body =
     (if body = ''active'' then
        Inr \<lparr>Inner = \<lparr>Proposals = [\<lparr>Id = ''other_1'', Approvals = ''delta:epsilon''\<rparr>]\<rparr>\<rparr>
      else if body = ''historical'' then
        Inr \<lparr>Inner = \<lparr>Proposals = [\<lparr>Id = ''other_2'', Approvals = ''zeta''\<rparr>,
                                     \<lparr>Id = ''nota_1'', Approvals = ''alpha:beta:gamma''\<rparr>]\<rparr>\<rparr>
      else Inl ''unexpected EOF'')"


section \<open>Properties of the trigger matcher\<close>

subsection \<open>The probe\<close>


lemma sint_pred:
  fixes x y :: int64
  assumes "\<not> x \<le>s y"
  shows "sint (x - 1) = sint x - 1"
proof -
  have "- (2 ^ 63) \<le> sint y" using sint_ge [of y] by simp
  with assms have low: "- (2 ^ 63) \<le> sint x - 1" by (simp add: word_sle_eq)
  have "sint x < 2 ^ 63" using sint_lt [of x] by simp
  then have high: "sint x - 1 < 2 ^ 63" by simp
  have "sint (x - 1) = signed_take_bit 63 (sint x - 1)"
    by (simp add: sint_word_ariths)
  also from low high have "\<dots> = sint x - 1"
    by (simp add: signed_take_bit_int_eq_self)
  finally show ?thesis .
qed

lemma probe_lead:
  "probe m ft fr upd mt i = (t, r) \<Longrightarrow> t = ft \<or> sint t \<le> sint (upd - (mt + i))"
proof (induction m ft fr upd mt i rule: probe.induct)
  case (1 m ft fr upd mt i)
  let ?t = "upd - (mt + i)"
  show ?case
  proof (cases "m ?t")
    case (Some r')
    with "1.prems" show ?thesis
      by (simp add: probe.simps [of m ft fr upd mt i])
  next
    case None
    show ?thesis
    proof (cases "?t \<le>s ft")
      case True
      with None "1.prems" show ?thesis
        by (simp add: probe.simps [of m ft fr upd mt i])
    next
      case False
      with None "1.prems" have rec: "probe m ft fr upd mt (i + 1) = (t, r)"
        by (simp add: probe.simps [of m ft fr upd mt i])
      have next_probe: "upd - (mt + (i + 1)) = ?t - 1" by simp
      have "sint (upd - (mt + (i + 1))) = sint ?t - 1"
        unfolding next_probe by (rule sint_pred [OF False])
      with "1.IH" [OF refl None False rec] show ?thesis by auto
    qed
  qed
qed

subsection \<open>The pass\<close>

lemma lookahead_in_range:
  assumes "hitIndex < length hittable"
  shows "\<exists>k. lookahead c hittable hitIndex = Inr k \<and> hitIndex \<le> k \<and> k < length hittable"
  using assms by (auto simp: lookahead_def)

lemma match_loop_returns:
  "hitIndex \<le> length hittable \<Longrightarrow>
     \<exists>result. match_loop lower isMinor mt ft fr regions hittable hitIndex m = Inr result"
proof (induction regions arbitrary: hittable hitIndex m)
  case Nil
  then show ?case by simp
next
  case (Cons region regions)
  show ?case
  proof (cases "hitIndex = length hittable")
    case True
    then show ?thesis by simp
  next
    case False
    with Cons.prems have "hitIndex < length hittable" by simp
    from lookahead_in_range [OF this]
    obtain k where k: "lookahead (canonName lower (rd_Name region)) hittable hitIndex = Inr k"
      "k < length hittable" by blast
    show ?thesis
      using False k Cons.IH by (simp add: Let_def split: prod.splits)
  qed
qed

lemma match_loop_assigned:
  "match_loop lower isMinor mt ft fr regions hittable hitIndex m = Inr result \<Longrightarrow>
     length result = length hittable \<and>
     (\<forall>i<length hittable. result ! i = hittable ! i \<or>
        Name (result ! i) = Name (hittable ! i) \<and>
        (\<exists>region\<in>set regions. canonName lower (rd_Name region) = Name (result ! i) \<and>
            UpdateTime (result ! i) = regionUpdate isMinor region) \<and>
        (TriggerTime (result ! i) = ft \<or>
         sint (TriggerTime (result ! i)) \<le> sint (UpdateTime (result ! i) - mt)))"
proof (induction regions arbitrary: hittable hitIndex m)
  case Nil
  then show ?case by simp
next
  case (Cons region regions)
  let ?c = "canonName lower (rd_Name region)"
  let ?upd = "regionUpdate isMinor region"
  let ?m = "remember m ?upd ?c"
  show ?case
  proof (cases "hitIndex = length hittable")
    case True
    with Cons.prems show ?thesis by simp
  next
    case False
    with Cons.prems obtain k where k: "lookahead ?c hittable hitIndex = Inr k" "k < length hittable"
      by (auto simp: Let_def split: sum.splits if_splits)
    show ?thesis
    proof (cases "?c = Name (hittable ! k)")
      case nomatch: False
      with False k Cons.prems
      have "match_loop lower isMinor mt ft fr regions hittable k ?m = Inr result"
        by (simp add: Let_def)
      from Cons.IH [OF this] show ?thesis by auto
    next
      case match: True
      obtain t r where tr: "probe ?m ft fr ?upd mt 0 = (t, r)" by fastforce
      let ?h = "(hittable ! k)\<lparr>UpdateTime := ?upd, TriggerRegion := r, TriggerTime := t\<rparr>"
      from match False k Cons.prems tr
      have run: "match_loop lower isMinor mt ft fr regions (hittable[k := ?h]) (k + 1) ?m = Inr result"
        by (simp add: Let_def)
      from probe_lead [OF tr] have lead: "t = ft \<or> sint t \<le> sint (?upd - mt)" by simp
      from Cons.IH [OF run] have len: "length result = length hittable"
        and ih: "\<And>i. i < length hittable \<Longrightarrow> result ! i = hittable[k := ?h] ! i \<or>
          Name (result ! i) = Name (hittable[k := ?h] ! i) \<and>
          (\<exists>region\<in>set regions. canonName lower (rd_Name region) = Name (result ! i) \<and>
              UpdateTime (result ! i) = regionUpdate isMinor region) \<and>
          (TriggerTime (result ! i) = ft \<or>
           sint (TriggerTime (result ! i)) \<le> sint (UpdateTime (result ! i) - mt))"
        by simp_all
      have "result ! i = hittable ! i \<or>
        Name (result ! i) = Name (hittable ! i) \<and>
        (\<exists>region\<in>set (region # regions). canonName lower (rd_Name region) = Name (result ! i) \<and>
            UpdateTime (result ! i) = regionUpdate isMinor region) \<and>
        (TriggerTime (result ! i) = ft \<or>
         sint (TriggerTime (result ! i)) \<le> sint (UpdateTime (result ! i) - mt))"
        if i: "i < length hittable" for i
      proof (cases "i = k")
        case True
        from ih [OF i] show ?thesis
        proof
          assume "result ! i = hittable[k := ?h] ! i"
          with True k(2) have "result ! i = ?h" by simp
          with match lead True show ?thesis by simp
        next
          assume a: "Name (result ! i) = Name (hittable[k := ?h] ! i) \<and>
            (\<exists>region\<in>set regions. canonName lower (rd_Name region) = Name (result ! i) \<and>
              UpdateTime (result ! i) = regionUpdate isMinor region) \<and>
            (TriggerTime (result ! i) = ft \<or>
             sint (TriggerTime (result ! i)) \<le> sint (UpdateTime (result ! i) - mt))"
          with True k(2) show ?thesis by auto
        qed
      next
        case False
        with ih [OF i] show ?thesis by auto
      qed
      with len show ?thesis by simp
    qed
  qed
qed

lemma sint_lead:
  fixes upd mt :: int64
  assumes "1 \<le>s mt" and "- (2 ^ 63) \<le> sint upd - sint mt"
  shows "sint (upd - mt) = sint upd - sint mt"
proof -
  from assms(1) have "1 \<le> sint mt" by (simp add: word_sle_eq)
  moreover have "sint upd < 2 ^ 63" using sint_lt [of upd] by simp
  ultimately have high: "sint upd - sint mt < 2 ^ 63" by simp
  have "sint (upd - mt) = signed_take_bit 63 (sint upd - sint mt)"
    by (simp add: sint_word_ariths)
  also from assms(2) high have "\<dots> = sint upd - sint mt"
    by (simp add: signed_take_bit_int_eq_self)
  finally show ?thesis .
qed

lemmas run_defs = trigger_matcher_def canonName_def ToLower_def regionUpdate_def remember_def
  lookahead_def probe.simps Let_def direct_hit_def word_sle_eq word_sless_alt

text \<open>
  Claim C1, as the code has it. A candidate that the pass changed carries the update time
  of a dump record with its canonical name. When the first probe, the update time minus
  the minimum lead time (which is at least 1), does not wrap around, the trigger time is
  earlier than the update time by at least the lead time, or it is the time of the first
  record of the dump. The trigger time is then not after the update time when the first
  record of the dump is not after the candidate's record, as in a dump listed in ascending
  update time; the fallback itself is applied without that comparison.
\<close>

theorem trigger_lead_or_fallback:
  assumes "trigger_matcher lower isMinor minimumTrigger regions hittable = Inr result"
    and "1 \<le>s minimumTrigger"
    and "i < length result"
    and "result ! i \<noteq> hittable ! i"
    and "- (2 ^ 63) \<le> sint (UpdateTime (result ! i)) - sint minimumTrigger"
  shows "(TriggerTime (result ! i) <s UpdateTime (result ! i) \<and>
            sint (TriggerTime (result ! i)) \<le> sint (UpdateTime (result ! i)) - sint minimumTrigger
          \<or> TriggerTime (result ! i) = regionUpdate isMinor (hd regions))
       \<and> (\<exists>region\<in>set regions. canonName lower (rd_Name region) = Name (result ! i) \<and>
             UpdateTime (result ! i) = regionUpdate isMinor region)
       \<and> (regionUpdate isMinor (hd regions) \<le>s UpdateTime (result ! i) \<longrightarrow>
             TriggerTime (result ! i) \<le>s UpdateTime (result ! i))
       \<and> (sorted_wrt (\<le>s) (map (regionUpdate isMinor) regions) \<longrightarrow>
             TriggerTime (result ! i) \<le>s UpdateTime (result ! i))"
proof -
  let ?h = "result ! i"
  from assms(1) obtain first rest where regions: "regions = first # rest"
    by (cases regions) (simp_all add: trigger_matcher_def)
  let ?ft = "regionUpdate isMinor first"
  from assms(1) regions
  have run: "match_loop lower isMinor minimumTrigger ?ft (rd_Name first) regions hittable 0 Map.empty = Inr result"
    by (simp add: trigger_matcher_def)
  from match_loop_assigned [OF run] assms(3,4)
  have mem: "\<exists>region\<in>set regions. canonName lower (rd_Name region) = Name ?h \<and>
             UpdateTime ?h = regionUpdate isMinor region"
    and lead: "TriggerTime ?h = ?ft \<or> sint (TriggerTime ?h) \<le> sint (UpdateTime ?h - minimumTrigger)"
    by auto
  have ft: "regionUpdate isMinor (hd regions) = ?ft" using regions by simp
  from assms(2) have mt: "1 \<le> sint minimumTrigger" by (simp add: word_sle_eq)
  note exact = sint_lead [OF assms(2,5)]
  have A: "TriggerTime ?h <s UpdateTime ?h \<and>
            sint (TriggerTime ?h) \<le> sint (UpdateTime ?h) - sint minimumTrigger
          \<or> TriggerTime ?h = regionUpdate isMinor (hd regions)"
    using lead mt ft exact by (auto simp: word_sless_alt)
  have B: "TriggerTime ?h \<le>s UpdateTime ?h"
    if "regionUpdate isMinor (hd regions) \<le>s UpdateTime ?h"
    using lead mt ft exact that by (auto simp: word_sle_eq)
  have C: "regionUpdate isMinor (hd regions) \<le>s UpdateTime ?h"
    if "sorted_wrt (\<le>s) (map (regionUpdate isMinor) regions)"
    using mem that regions by auto
  from A mem B C show ?thesis by blast
qed

theorem trigger_lead_or_fallback_witness:
  "trigger_matcher id False 6
     [\<lparr>rd_Name = ''A'', rd_LastMinor = 0, rd_LastMajor = 1000\<rparr>,
      \<lparr>rd_Name = ''B'', rd_LastMinor = 0, rd_LastMajor = 1004\<rparr>,
      \<lparr>rd_Name = ''C'', rd_LastMinor = 0, rd_LastMajor = 1010\<rparr>,
      \<lparr>rd_Name = ''D'', rd_LastMinor = 0, rd_LastMajor = 1013\<rparr>]
     [direct_hit ''c'' ''x'' 1009, direct_hit ''d'' ''y'' 1012]
   = Inr [(direct_hit ''c'' ''x'' 1009)\<lparr>UpdateTime := 1010, TriggerRegion := ''b'', TriggerTime := 1004\<rparr>,
          (direct_hit ''d'' ''y'' 1012)\<lparr>UpdateTime := 1013, TriggerRegion := ''b'', TriggerTime := 1004\<rparr>]
   \<and> (1 :: int64) \<le>s 6
   \<and> - (2 ^ 63) \<le> sint (1013 :: int64) - sint (6 :: int64)
   \<and> (1004 :: int64) <s 1013 \<and> sint (1004 :: int64) \<le> sint (1013 :: int64) - sint (6 :: int64)
   \<and> sorted_wrt (\<le>s) (map (regionUpdate False)
     [\<lparr>rd_Name = ''A'', rd_LastMinor = 0, rd_LastMajor = 1000\<rparr>,
      \<lparr>rd_Name = ''B'', rd_LastMinor = 0, rd_LastMajor = 1004\<rparr>,
      \<lparr>rd_Name = ''C'', rd_LastMinor = 0, rd_LastMajor = 1010\<rparr>,
      \<lparr>rd_Name = ''D'', rd_LastMinor = 0, rd_LastMajor = 1013\<rparr>])"
proof -
  let ?regions = "[\<lparr>rd_Name = ''A'', rd_LastMinor = 0, rd_LastMajor = 1000\<rparr>,
      \<lparr>rd_Name = ''B'', rd_LastMinor = 0, rd_LastMajor = 1004\<rparr>,
      \<lparr>rd_Name = ''C'', rd_LastMinor = 0, rd_LastMajor = 1010\<rparr>,
      \<lparr>rd_Name = ''D'', rd_LastMinor = 0, rd_LastMajor = 1013\<rparr>]"
  let ?hittable = "[direct_hit ''c'' ''x'' 1009, direct_hit ''d'' ''y'' 1012]"
  let ?result = "[(direct_hit ''c'' ''x'' 1009)\<lparr>UpdateTime := 1010, TriggerRegion := ''b'', TriggerTime := 1004\<rparr>,
          (direct_hit ''d'' ''y'' 1012)\<lparr>UpdateTime := 1013, TriggerRegion := ''b'', TriggerTime := 1004\<rparr>]"
  have run: "trigger_matcher id False 6 ?regions ?hittable = Inr ?result"
    by (simp add: run_defs)
  have lead: "(1 :: int64) \<le>s 6" by (simp add: word_sle_eq)
  have i: "1 < length ?result" by simp
  have changed: "?result ! 1 \<noteq> ?hittable ! 1" by (simp add: direct_hit_def)
  have range: "- (2 ^ 63) \<le> sint (UpdateTime (?result ! 1)) - sint (6 :: int64)" by simp
  from trigger_lead_or_fallback [OF run lead i changed range] run lead
  show ?thesis by (simp add: regionUpdate_def word_sle_eq word_sless_alt)
qed

text \<open>
  Claim C1 as stated fails on a dump whose first record is later than the candidate's
  record: the fallback gives the candidate \<open>b\<close>, updated at 500, the trigger time 1000.
  It also fails where the first probe wraps around: the candidate \<open>c\<close>, updated at
  \<open>-9223372036854775806\<close>, gets the trigger time \<open>9223372036854775804\<close>, which is
  later and is not the time of the first record.
\<close>

theorem fallback_after_update:
  "trigger_matcher id False 6
     [\<lparr>rd_Name = ''A'', rd_LastMinor = 0, rd_LastMajor = 1000\<rparr>,
      \<lparr>rd_Name = ''B'', rd_LastMinor = 0, rd_LastMajor = 500\<rparr>]
     [direct_hit ''b'' ''x'' 500]
   = Inr [\<lparr>Name = ''b'', Delegate = ''x'', SecondNation = '''', IsDeltip = False,
           UpdateTime = 500, TriggerRegion = ''A'', TriggerTime = 1000\<rparr>]
   \<and> (500 :: int64) <s 1000
   \<and> trigger_matcher id False 6
     [\<lparr>rd_Name = ''A'', rd_LastMinor = 0, rd_LastMajor = 5\<rparr>,
      \<lparr>rd_Name = ''B'', rd_LastMinor = 0, rd_LastMajor = 9223372036854775804\<rparr>,
      \<lparr>rd_Name = ''C'', rd_LastMinor = 0, rd_LastMajor = - 9223372036854775806\<rparr>]
     [direct_hit ''c'' ''x'' 0]
   = Inr [\<lparr>Name = ''c'', Delegate = ''x'', SecondNation = '''', IsDeltip = False,
           UpdateTime = - 9223372036854775806, TriggerRegion = ''b'',
           TriggerTime = 9223372036854775804\<rparr>]
   \<and> (- 9223372036854775806 :: int64) <s 9223372036854775804
   \<and> (9223372036854775804 :: int64) \<noteq> 5"
  by (simp add: run_defs)



text \<open>
  Claim C4 does not hold of the code. With two candidates in a row that the dump does not
  list, the lookahead never moves the cursor and the candidate \<open>r\<close>, which the dump
  lists, is left without a trigger. With two candidates that the dump lists in the other
  order, the lookahead passes over \<open>x\<close>, which then stays without a trigger.
\<close>

theorem consecutive_orphans_stall:
  "trigger_matcher id False 6
     [\<lparr>rd_Name = ''A'', rd_LastMinor = 0, rd_LastMajor = 1000\<rparr>,
      \<lparr>rd_Name = ''R'', rd_LastMinor = 0, rd_LastMajor = 1010\<rparr>]
     [direct_hit ''p'' ''x'' 1003, direct_hit ''q'' ''y'' 1006, direct_hit ''r'' ''z'' 1010]
   = Inr [direct_hit ''p'' ''x'' 1003, direct_hit ''q'' ''y'' 1006, direct_hit ''r'' ''z'' 1010]
   \<and> canonName id ''R'' = Name (direct_hit ''r'' ''z'' 1010)
   \<and> TriggerRegion (direct_hit ''r'' ''z'' 1010) = ''''
   \<and> trigger_matcher id False 6
     [\<lparr>rd_Name = ''A'', rd_LastMinor = 0, rd_LastMajor = 1000\<rparr>,
      \<lparr>rd_Name = ''Y'', rd_LastMinor = 0, rd_LastMajor = 1010\<rparr>,
      \<lparr>rd_Name = ''X'', rd_LastMinor = 0, rd_LastMajor = 1020\<rparr>]
     [direct_hit ''x'' ''d'' 1009, direct_hit ''y'' ''e'' 1010]
   = Inr [direct_hit ''x'' ''d'' 1009,
          \<lparr>Name = ''y'', Delegate = ''e'', SecondNation = '''', IsDeltip = False,
           UpdateTime = 1010, TriggerRegion = ''a'', TriggerTime = 1000\<rparr>]"
  by (simp add: run_defs)

text \<open>
  On a dump with at least one record the matching pass returns: it reads no candidate
  outside the list, and it keeps the candidates' number, order and names. On an empty
  dump the read of the first record panics.
\<close>

theorem trigger_matcher_returns:
  "(regions \<noteq> [] \<longrightarrow>
      (\<exists>result. trigger_matcher lower isMinor minimumTrigger regions hittable = Inr result \<and>
                length result = length hittable \<and> map Name result = map Name hittable))
   \<and> trigger_matcher lower isMinor minimumTrigger [] hittable = Inl IndexOutOfRange"
proof -
  have "\<exists>result. trigger_matcher lower isMinor minimumTrigger regions hittable = Inr result \<and>
                length result = length hittable \<and> map Name result = map Name hittable"
    if "regions \<noteq> []"
  proof -
    from that obtain first rest where regions: "regions = first # rest" by (cases regions) auto
    from match_loop_returns [of 0 hittable lower isMinor minimumTrigger "regionUpdate isMinor first"
        "rd_Name first" regions Map.empty]
    obtain result where run: "match_loop lower isMinor minimumTrigger (regionUpdate isMinor first)
        (rd_Name first) regions hittable 0 Map.empty = Inr result" by auto
    from match_loop_assigned [OF run]
    have len: "length result = length hittable"
      and names: "\<forall>i<length hittable. Name (result ! i) = Name (hittable ! i)"
      by auto
    from len names have "map Name result = map Name hittable"
      by (simp add: list_eq_iff_nth_eq)
    with run len regions show ?thesis by (simp add: trigger_matcher_def)
  qed
  then show ?thesis by (simp add: trigger_matcher_def)
qed

theorem trigger_matcher_returns_witness:
  "[\<lparr>rd_Name = ''A'', rd_LastMinor = 0, rd_LastMajor = 1000\<rparr>] \<noteq> []
   \<and> trigger_matcher id False 6 [\<lparr>rd_Name = ''A'', rd_LastMinor = 0, rd_LastMajor = 1000\<rparr>]
        [direct_hit ''a'' ''x'' 990]
      = Inr [\<lparr>Name = ''a'', Delegate = ''x'', SecondNation = '''', IsDeltip = False,
              UpdateTime = 1000, TriggerRegion = ''A'', TriggerTime = 1000\<rparr>]"
proof -
  have nonempty: "[\<lparr>rd_Name = ''A'', rd_LastMinor = 0, rd_LastMajor = 1000\<rparr>] \<noteq> []" by simp
  have run: "trigger_matcher id False 6 [\<lparr>rd_Name = ''A'', rd_LastMinor = 0, rd_LastMajor = 1000\<rparr>]
        [direct_hit ''a'' ''x'' 990]
      = Inr [\<lparr>Name = ''a'', Delegate = ''x'', SecondNation = '''', IsDeltip = False,
              UpdateTime = 1000, TriggerRegion = ''A'', TriggerTime = 1000\<rparr>]"
    by (simp add: run_defs)
  from trigger_matcher_returns [of "[\<lparr>rd_Name = ''A'', rd_LastMinor = 0, rd_LastMajor = 1000\<rparr>]"]
    nonempty run
  show ?thesis by blast
qed

section \<open>Properties of the client\<close>

subsection \<open>The executor\<close>

lemma Atoi_empty: "Atoi '''' = (0, Some ErrSyntax)"
  by (simp add: Atoi_def)

lemma Atoi_zero: "Atoi ''0'' = (0, None)"
  by (simp add: Atoi_def digit_def)

lemma Atoi_syntax: "snd (Atoi s) = Some ErrSyntax \<Longrightarrow> fst (Atoi s) = 0"
  by (auto simp: Atoi_def Let_def split: if_splits option.splits)

lemmas client_defs = makeAPIRequest_def request_of_def consumed_def apiUrl_def
  throttled_response_def ok_response_def
  Get_def Atoi_def digit_def Let_def decode_def Second_def quo_def signed_divide_int_def
  word_sle_eq word_sless_alt

text \<open>
  Claim C5 does not hold of the code: the retry does not send the request again as it was.
  After a response with status 429 and \<^verbatim>\<open>Retry-After: 3\<close> the call sleeps three
  seconds and hands the same request to \<^verbatim>\<open>httpClient.Do\<close> once more, but the first
  call has read its body, so the second call is made with a request that has no form data
  left to send.
\<close>

theorem retry_sends_consumed_request:
  "makeAPIRequest ''quorate'' '''' Inr [(''q'', [''region''])]
     [Inr (throttled_response ''3''),
      Inr (ok_response [(''RateLimit-Remaining'', ''40''), (''RateLimit-Reset'', ''20'')] ''body'')]
   = (Some (Return ''body'' None),
      [Do \<lparr>Method = ''POST'', URL = ''https://www.nationstates.net/cgi-bin/api.cgi'',
           UserAgent = ''quorate'', ContentType = ''application/x-www-form-urlencoded'',
           Form = [(''q'', [''region''])]\<rparr>,
       Sleep 3000000000,
       Do \<lparr>Method = ''POST'', URL = ''https://www.nationstates.net/cgi-bin/api.cgi'',
           UserAgent = ''quorate'', ContentType = ''application/x-www-form-urlencoded'',
           Form = []\<rparr>],
      [])"
  by (simp add: client_defs)

text \<open>
  Claim C9 does not hold of the code at a remaining budget of 0: the response below has
  status 200, 0 requests remaining and 30 seconds to the reset, and the call does not
  sleep and return but panics on the division.
\<close>

theorem slowdown_zero_remaining:
  "makeAPIRequest ''quorate'' '''' Inr [(''q'', [''region''])]
     [Inr (ok_response [(''RateLimit-Remaining'', ''0''), (''RateLimit-Reset'', ''30'')] ''body'')]
   = (Some (Panic IntegerDivideByZero), [Do (request_of ''quorate'' [(''q'', [''region''])])], [])"
  by (simp add: client_defs)

text \<open>
  Claim C10. A response whose status is not 429 and whose
  \<^verbatim>\<open>RateLimit-Remaining\<close> header is absent, is not a number, or is \<open>0\<close> has the
  remaining counter 0, which is within the watermark of 7, and the call panics on the
  division \<^verbatim>\<open>reset/remaining\<close> after its one request.
\<close>

theorem slowdown_divides_by_zero:
  assumes "userAgent \<noteq> ''''"
    and "StatusCode result \<noteq> 429"
    and "map_of (Header result) ''RateLimit-Remaining'' = None
       \<or> snd (Atoi (Get (Header result) ''RateLimit-Remaining'')) = Some ErrSyntax
       \<or> Get (Header result) ''RateLimit-Remaining'' = ''0''"
  shows "fst (Atoi (Get (Header result) ''RateLimit-Remaining'')) = 0
       \<and> fst (Atoi (Get (Header result) ''RateLimit-Remaining'')) \<le>s 7
       \<and> makeAPIRequest userAgent zero unmarshal data (Inr result # server)
           = (Some (Panic IntegerDivideByZero), [Do (request_of userAgent data)], server)"
proof -
  from assms(3) have zero: "fst (Atoi (Get (Header result) ''RateLimit-Remaining'')) = 0"
  proof (elim disjE)
    assume "map_of (Header result) ''RateLimit-Remaining'' = None"
    then have "Get (Header result) ''RateLimit-Remaining'' = ''''" by (simp add: Get_def)
    then show ?thesis by (simp add: Atoi_empty)
  next
    assume "snd (Atoi (Get (Header result) ''RateLimit-Remaining'')) = Some ErrSyntax"
    then show ?thesis by (rule Atoi_syntax)
  next
    assume "Get (Header result) ''RateLimit-Remaining'' = ''0''"
    then show ?thesis by (simp add: Atoi_zero)
  qed
  then have low: "fst (Atoi (Get (Header result) ''RateLimit-Remaining'')) \<le>s 7"
    by (simp add: word_sle_eq)
  from assms(1,2) zero low
  have "makeAPIRequest userAgent zero unmarshal data (Inr result # server)
           = (Some (Panic IntegerDivideByZero), [Do (request_of userAgent data)], server)"
    by (simp add: makeAPIRequest_def request_of_def Let_def)
  with zero low show ?thesis by blast
qed

theorem slowdown_divides_by_zero_witness:
  "''quorate'' \<noteq> ''''
   \<and> StatusCode (ok_response [(''RateLimit-Reset'', ''30'')] ''body'') \<noteq> 429
   \<and> map_of (Header (ok_response [(''RateLimit-Reset'', ''30'')] ''body'')) ''RateLimit-Remaining'' = None
   \<and> makeAPIRequest ''quorate'' '''' Inr [(''q'', [''region''])]
        [Inr (ok_response [(''RateLimit-Reset'', ''30'')] ''body'')]
      = (Some (Panic IntegerDivideByZero), [Do (request_of ''quorate'' [(''q'', [''region''])])], [])"
proof -
  let ?result = "ok_response [(''RateLimit-Reset'', ''30'')] ''body''"
  have agent: "''quorate'' \<noteq> ''''" by simp
  have code: "StatusCode ?result \<noteq> 429" by (simp add: ok_response_def)
  have absent: "map_of (Header ?result) ''RateLimit-Remaining'' = None"
    by (simp add: ok_response_def)
  then have cases: "map_of (Header ?result) ''RateLimit-Remaining'' = None
       \<or> snd (Atoi (Get (Header ?result) ''RateLimit-Remaining'')) = Some ErrSyntax
       \<or> Get (Header ?result) ''RateLimit-Remaining'' = ''0''" by blast
  from slowdown_divides_by_zero [OF agent code cases, of "''''" Inr "[(''q'', [''region''])]" "[]"]
    agent code absent
  show ?thesis by blast
qed

text \<open>
  Where the remaining counter is not 0 the slowdown is as specified: a response whose
  status is not 429 ends the call after one request with what the decoding gives; the
  call sleeps
  \<^verbatim>\<open>reset/remaining + 1\<close> seconds before that when the counter is at most 7, and does
  not sleep when it is above 7.
\<close>

theorem slowdown_blocks:
  assumes "userAgent \<noteq> ''''"
    and "StatusCode result \<noteq> 429"
    and "fst (Atoi (Get (Header result) ''RateLimit-Remaining'')) \<noteq> 0"
  shows "(let remaining = fst (Atoi (Get (Header result) ''RateLimit-Remaining''));
              reset = fst (Atoi (Get (Header result) ''RateLimit-Reset''))
          in makeAPIRequest userAgent zero unmarshal data (Inr result # server)
               = (Some (decode zero unmarshal result),
                  (if remaining \<le>s 7
                   then [Do (request_of userAgent data), Sleep ((quo reset remaining + 1) * Second)]
                   else [Do (request_of userAgent data)]),
                  server))"
  using assms by (simp add: makeAPIRequest_def Let_def)

theorem slowdown_blocks_witness:
  "''quorate'' \<noteq> ''''
   \<and> StatusCode (ok_response [(''RateLimit-Remaining'', ''7''), (''RateLimit-Reset'', ''30'')] ''body'') \<noteq> 429
   \<and> fst (Atoi (Get (Header (ok_response [(''RateLimit-Remaining'', ''7''), (''RateLimit-Reset'', ''30'')] ''body''))
          ''RateLimit-Remaining'')) = 7
   \<and> makeAPIRequest ''quorate'' '''' Inr [(''q'', [''region''])]
        [Inr (ok_response [(''RateLimit-Remaining'', ''7''), (''RateLimit-Reset'', ''30'')] ''body'')]
      = (Some (Return ''body'' None),
         [Do (request_of ''quorate'' [(''q'', [''region''])]), Sleep 5000000000], [])"
proof -
  let ?result = "ok_response [(''RateLimit-Remaining'', ''7''), (''RateLimit-Reset'', ''30'')] ''body''"
  have agent: "''quorate'' \<noteq> ''''" by simp
  have code: "StatusCode ?result \<noteq> 429" by (simp add: ok_response_def)
  have seven: "fst (Atoi (Get (Header ?result) ''RateLimit-Remaining'')) = 7"
    by (simp add: client_defs)
  then have nonzero: "fst (Atoi (Get (Header ?result) ''RateLimit-Remaining'')) \<noteq> 0" by simp
  have run: "makeAPIRequest ''quorate'' '''' Inr [(''q'', [''region''])] [Inr ?result]
      = (Some (Return ''body'' None),
         [Do (request_of ''quorate'' [(''q'', [''region''])]), Sleep 5000000000], [])"
    by (simp add: client_defs)
  from slowdown_blocks [OF agent code nonzero] agent code seven run
  show ?thesis by blast
qed

subsection \<open>The typed queries\<close>

lemma decode_error:
  "decode zero unmarshal result = Return v (Some err) \<Longrightarrow>
     v = zero \<and> err \<noteq> ErrorString ''proposal not found''"
  by (auto simp: decode_def split: if_splits sum.splits)

lemma request_loop_error:
  "request_loop zero unmarshal req server = (Some (Return v (Some err)), events, rest) \<Longrightarrow>
     v = zero \<and> err \<noteq> ErrorString ''proposal not found''"
proof (induction server arbitrary: events req)
  case Nil
  then show ?case by simp
next
  case (Cons answer server)
  show ?case
  proof (cases answer)
    case (Inl msg)
    with Cons.prems show ?thesis by auto
  next
    case (Inr result)
    show ?thesis
    proof (cases "StatusCode result = 429")
      case True
      obtain out' events' rest' where
        rec: "request_loop zero unmarshal (consumed req) server = (out', events', rest')"
        by (cases "request_loop zero unmarshal (consumed req) server") auto
      with Cons.prems Inr True have "out' = Some (Return v (Some err))" "rest' = rest"
        by (simp_all add: Let_def)
      with rec have "request_loop zero unmarshal (consumed req) server
          = (Some (Return v (Some err)), events', rest)"
        by simp
      then show ?thesis by (rule Cons.IH)
    next
      case False
      with Cons.prems Inr show ?thesis
        by (auto simp: Let_def split: if_splits dest: decode_error)
    qed
  qed
qed

lemma makeAPIRequest_error:
  "makeAPIRequest userAgent zero unmarshal data server = (Some (Return v (Some err)), events, rest) \<Longrightarrow>
     v = zero \<and> err \<noteq> ErrorString ''proposal not found''"
  by (auto simp: makeAPIRequest_def split: if_splits dest: request_loop_error)

lemma find_proposal_Some:
  "find (\<lambda>p. Id p = proposalId) (Proposals (Inner xmlProposals)) = Some proposal \<Longrightarrow>
     find_proposal proposalId xmlProposals = Some (Split (Approvals proposal) CHR '':'')"
  by (simp add: find_proposal_def)

lemma find_proposal_None:
  "find_proposal proposalId xmlProposals = None \<longleftrightarrow>
     proposalId \<notin> Id ` set (Proposals (Inner xmlProposals))"
proof -
  have absent: "find (\<lambda>p. Id p = proposalId) ps = None \<longleftrightarrow> proposalId \<notin> Id ` set ps" for ps
    by (induction ps) auto
  show ?thesis
    by (cases "find (\<lambda>p. Id p = proposalId) (Proposals (Inner xmlProposals))")
      (use absent [of "Proposals (Inner xmlProposals)"] in \<open>simp_all add: find_proposal_def\<close>)
qed

lemma wa_data:
  "Add (Add [] ''wa'' ''2'') ''q'' ''proposals'' = [(''wa'', [''2'']), (''q'', [''proposals''])]"
  "Set_value [(''wa'', [''2'']), (''q'', [''proposals''])] ''wa'' ''1'' = [(''wa'', [''1'']), (''q'', [''proposals''])]"
  by simp_all

text \<open>
  Claim C6. The lookup asks for the proposals with \<open>wa=2\<close> first. When that call
  returns a list holding the id, the lookup returns the approvals of the first proposal
  with the id, split at the colons, and asks nothing more. When the list does not hold the
  id, it asks again with \<open>wa=1\<close> and \<open>q\<close> unchanged, and returns the approvals found
  there, split the same way, or the error ``proposal not found'' when the second list
  does not hold the id either. That error is returned in no other case.
\<close>

theorem approvals_lookup:
  "(makeAPIRequest userAgent zero_WaProposalsOuter unmarshal
        [(''wa'', [''2'']), (''q'', [''proposals''])] server
      = (Some (Return active None), events, server1) \<longrightarrow>
      (find (\<lambda>p. Id p = proposalId) (Proposals (Inner active)) = Some proposal \<longrightarrow>
         GetProposalApprovals userAgent unmarshal proposalId server
           = (Some (Return (Split (Approvals proposal) CHR '':'') None), events, server1))
    \<and> (proposalId \<notin> Id ` set (Proposals (Inner active)) \<longrightarrow>
       makeAPIRequest userAgent zero_WaProposalsOuter unmarshal
          [(''wa'', [''1'']), (''q'', [''proposals''])] server1
        = (Some (Return historical None), events2, server2) \<longrightarrow>
         (find (\<lambda>p. Id p = proposalId) (Proposals (Inner historical)) = Some proposal \<longrightarrow>
            GetProposalApprovals userAgent unmarshal proposalId server
              = (Some (Return (Split (Approvals proposal) CHR '':'') None), events @ events2, server2))
       \<and> (proposalId \<notin> Id ` set (Proposals (Inner historical)) \<longrightarrow>
            GetProposalApprovals userAgent unmarshal proposalId server
              = (Some (Return [] (Some (ErrorString ''proposal not found''))),
                 events @ events2, server2))))
   \<and> (GetProposalApprovals userAgent unmarshal proposalId server
        = (Some (Return delegates (Some (ErrorString ''proposal not found''))), trace, rest) \<longrightarrow>
      (\<exists>first events1 server1 second events2.
          makeAPIRequest userAgent zero_WaProposalsOuter unmarshal
              [(''wa'', [''2'']), (''q'', [''proposals''])] server
            = (Some (Return first None), events1, server1)
        \<and> proposalId \<notin> Id ` set (Proposals (Inner first))
        \<and> makeAPIRequest userAgent zero_WaProposalsOuter unmarshal
              [(''wa'', [''1'']), (''q'', [''proposals''])] server1
            = (Some (Return second None), events2, rest)
        \<and> proposalId \<notin> Id ` set (Proposals (Inner second))
        \<and> trace = events1 @ events2 \<and> delegates = []))"
proof -
  let ?active = "makeAPIRequest userAgent zero_WaProposalsOuter unmarshal
        [(''wa'', [''2'']), (''q'', [''proposals''])] server"
  let ?historical = "\<lambda>s. makeAPIRequest userAgent zero_WaProposalsOuter unmarshal
        [(''wa'', [''1'']), (''q'', [''proposals''])] s"
  let ?notfound = "ErrorString ''proposal not found''"
  have found_active: "GetProposalApprovals userAgent unmarshal proposalId server
           = (Some (Return (Split (Approvals proposal) CHR '':'') None), events, server1)"
    if "?active = (Some (Return active None), events, server1)"
      and "find (\<lambda>p. Id p = proposalId) (Proposals (Inner active)) = Some proposal"
    using that find_proposal_Some [of proposalId active proposal]
    by (simp add: GetProposalApprovals_def)
  have found_historical: "GetProposalApprovals userAgent unmarshal proposalId server
              = (Some (Return (Split (Approvals proposal) CHR '':'') None), events @ events2, server2)"
    if "?active = (Some (Return active None), events, server1)"
      and "proposalId \<notin> Id ` set (Proposals (Inner active))"
      and "?historical server1 = (Some (Return historical None), events2, server2)"
      and "find (\<lambda>p. Id p = proposalId) (Proposals (Inner historical)) = Some proposal"
    using that find_proposal_Some [of proposalId historical proposal]
      find_proposal_None [of proposalId active]
    by (simp add: GetProposalApprovals_def)
  have not_found: "GetProposalApprovals userAgent unmarshal proposalId server
              = (Some (Return [] (Some ?notfound)), events @ events2, server2)"
    if "?active = (Some (Return active None), events, server1)"
      and "proposalId \<notin> Id ` set (Proposals (Inner active))"
      and "?historical server1 = (Some (Return historical None), events2, server2)"
      and "proposalId \<notin> Id ` set (Proposals (Inner historical))"
    using that find_proposal_None [of proposalId active] find_proposal_None [of proposalId historical]
    by (simp add: GetProposalApprovals_def)
  have only: "\<exists>first events1 server1 second events2.
          ?active = (Some (Return first None), events1, server1)
        \<and> proposalId \<notin> Id ` set (Proposals (Inner first))
        \<and> ?historical server1 = (Some (Return second None), events2, rest)
        \<and> proposalId \<notin> Id ` set (Proposals (Inner second))
        \<and> trace = events1 @ events2 \<and> delegates = []"
    if run: "GetProposalApprovals userAgent unmarshal proposalId server
        = (Some (Return delegates (Some ?notfound)), trace, rest)"
  proof -
    obtain out1 events1 server1 where a: "?active = (out1, events1, server1)"
      by (cases ?active) auto
    from run a obtain first where out1: "out1 = Some (Return first None)"
      by (cases out1 rule: option.exhaust)
         (auto simp: GetProposalApprovals_def split: outcome.splits option.splits
               dest: makeAPIRequest_error)
    with a have a': "?active = (Some (Return first None), events1, server1)" by simp
    from run a' have absent1: "find_proposal proposalId first = None"
      by (auto simp: GetProposalApprovals_def split: option.splits)
    obtain out2 events2 server2 where h: "?historical server1 = (out2, events2, server2)"
      by (cases "?historical server1") auto
    from run a' absent1 h obtain second where out2: "out2 = Some (Return second None)"
      by (cases out2 rule: option.exhaust)
         (auto simp: GetProposalApprovals_def split: outcome.splits option.splits
               dest: makeAPIRequest_error)
    with h have h': "?historical server1 = (Some (Return second None), events2, server2)" by simp
    from run a' absent1 h' have absent2: "find_proposal proposalId second = None"
      and rest: "trace = events1 @ events2" "rest = server2" "delegates = []"
      by (auto simp: GetProposalApprovals_def split: option.splits)
    from a' absent1 h' absent2 rest show ?thesis
      by (auto simp: find_proposal_None)
  qed
  from found_active found_historical not_found only show ?thesis by blast
qed

theorem approvals_lookup_witness:
  "makeAPIRequest ''quorate'' zero_WaProposalsOuter example_proposals
       [(''wa'', [''2'']), (''q'', [''proposals''])]
       [Inr (ok_response [(''RateLimit-Remaining'', ''40'')] ''active''),
        Inr (ok_response [(''RateLimit-Remaining'', ''39'')] ''historical'')]
     = (Some (Return \<lparr>Inner = \<lparr>Proposals = [\<lparr>Id = ''other_1'', Approvals = ''delta:epsilon''\<rparr>]\<rparr>\<rparr> None),
        [Do (request_of ''quorate'' [(''wa'', [''2'']), (''q'', [''proposals''])])],
        [Inr (ok_response [(''RateLimit-Remaining'', ''39'')] ''historical'')])
   \<and> ''nota_1'' \<notin> Id ` set [\<lparr>Id = ''other_1'', Approvals = ''delta:epsilon''\<rparr>]
   \<and> makeAPIRequest ''quorate'' zero_WaProposalsOuter example_proposals
       [(''wa'', [''1'']), (''q'', [''proposals''])]
       [Inr (ok_response [(''RateLimit-Remaining'', ''39'')] ''historical'')]
     = (Some (Return \<lparr>Inner = \<lparr>Proposals = [\<lparr>Id = ''other_2'', Approvals = ''zeta''\<rparr>,
                                               \<lparr>Id = ''nota_1'', Approvals = ''alpha:beta:gamma''\<rparr>]\<rparr>\<rparr> None),
        [Do (request_of ''quorate'' [(''wa'', [''1'']), (''q'', [''proposals''])])],
        [])
   \<and> find (\<lambda>p. Id p = ''nota_1'')
        [\<lparr>Id = ''other_2'', Approvals = ''zeta''\<rparr>, \<lparr>Id = ''nota_1'', Approvals = ''alpha:beta:gamma''\<rparr>]
     = Some \<lparr>Id = ''nota_1'', Approvals = ''alpha:beta:gamma''\<rparr>
   \<and> GetProposalApprovals ''quorate'' example_proposals ''nota_1''
       [Inr (ok_response [(''RateLimit-Remaining'', ''40'')] ''active''),
        Inr (ok_response [(''RateLimit-Remaining'', ''39'')] ''historical'')]
     = (Some (Return [''alpha'', ''beta'', ''gamma''] None),
        [Do (request_of ''quorate'' [(''wa'', [''2'']), (''q'', [''proposals''])]),
         Do (request_of ''quorate'' [(''wa'', [''1'']), (''q'', [''proposals''])])],
        [])"
proof -
  let ?server = "[Inr (ok_response [(''RateLimit-Remaining'', ''40'')] ''active''),
        Inr (ok_response [(''RateLimit-Remaining'', ''39'')] ''historical'')]"
  let ?server1 = "[Inr (ok_response [(''RateLimit-Remaining'', ''39'')] ''historical'')]"
  let ?active = "\<lparr>Inner = \<lparr>Proposals = [\<lparr>Id = ''other_1'', Approvals = ''delta:epsilon''\<rparr>]\<rparr>\<rparr>"
  let ?historical = "\<lparr>Inner = \<lparr>Proposals = [\<lparr>Id = ''other_2'', Approvals = ''zeta''\<rparr>,
                                               \<lparr>Id = ''nota_1'', Approvals = ''alpha:beta:gamma''\<rparr>]\<rparr>\<rparr>"
  let ?proposal = "\<lparr>Id = ''nota_1'', Approvals = ''alpha:beta:gamma''\<rparr>"
  have first: "makeAPIRequest ''quorate'' zero_WaProposalsOuter example_proposals
       [(''wa'', [''2'']), (''q'', [''proposals''])] ?server
     = (Some (Return ?active None),
        [Do (request_of ''quorate'' [(''wa'', [''2'']), (''q'', [''proposals''])])], ?server1)"
    by (simp add: client_defs example_proposals_def)
  have absent: "''nota_1'' \<notin> Id ` set (Proposals (Inner ?active))" by simp
  have second: "makeAPIRequest ''quorate'' zero_WaProposalsOuter example_proposals
       [(''wa'', [''1'']), (''q'', [''proposals''])] ?server1
     = (Some (Return ?historical None),
        [Do (request_of ''quorate'' [(''wa'', [''1'']), (''q'', [''proposals''])])], [])"
    by (simp add: client_defs example_proposals_def)
  have present: "find (\<lambda>p. Id p = ''nota_1'') (Proposals (Inner ?historical)) = Some ?proposal"
    by simp
  have split: "Split (Approvals ?proposal) CHR '':'' = [''alpha'', ''beta'', ''gamma'']"
    by simp
  from approvals_lookup [of "''quorate''" example_proposals ?server ?active _ ?server1 "''nota_1''"
      ?proposal ?historical _ "[]"]
    first absent second present
  have "GetProposalApprovals ''quorate'' example_proposals ''nota_1'' ?server
     = (Some (Return (Split (Approvals ?proposal) CHR '':'') None),
        [Do (request_of ''quorate'' [(''wa'', [''2'']), (''q'', [''proposals''])])]
          @ [Do (request_of ''quorate'' [(''wa'', [''1'']), (''q'', [''proposals''])])], [])"
    by blast
  with first absent second present split show ?thesis by simp
qed

lemma region_data:
  "Add (Add (Add [] ''region'' region) ''q'' ''censusranks+tags+lastmajorupdate+lastminorupdate'')
       ''scale'' ''66''
   = [(''region'', [region]), (''q'', [''censusranks+tags+lastmajorupdate+lastminorupdate'']),
      (''scale'', [''66''])]"
  by simp



section \<open>Properties of the candidate ranker\<close>

lemmas ranker_defs = check_region_def canonName_def ToLower_def Let_def direct_hit_def
  deltip_hit_def Millisecond_def word_sless_alt

lemma sint_sum:
  fixes a b :: int64
  assumes "- (2 ^ 63) \<le> sint a + sint b" and "sint a + sint b < 2 ^ 63"
  shows "sint (a + b) = sint a + sint b"
proof -
  have "sint (a + b) = signed_take_bit 63 (sint a + sint b)"
    by (simp add: sint_word_ariths)
  also from assms have "\<dots> = sint a + sint b"
    by (simp add: signed_take_bit_int_eq_self)
  finally show ?thesis .
qed

text \<open>
  Claim C3, as the code has it. Take a region without a password for which the sum of the
  runner-up's endorsements and the maximum is an \<^verbatim>\<open>int\<close>. The ranker appends a
  direct hit, with no second nation and \<^verbatim>\<open>IsDeltip\<close> false, exactly when the
  delegate's endorsements are below the maximum. It appends a hit with the runner-up as
  \<^verbatim>\<open>SecondNation\<close> and \<^verbatim>\<open>IsDeltip\<close> true exactly when they are not below the
  maximum but below the maximum plus the runner-up's endorsements. It leaves the list as
  it is exactly in the remaining case. With a maximum of 5: 4 and 2 give a direct hit, 6
  and 2 a hit with the runner-up, 8 and 2 nothing.
\<close>

theorem check_region_classes:
  assumes "\<not> Password regionInfo"
    and "- (2 ^ 63) \<le> sint (SecondEndos regionInfo) + sint maxEndoCount"
    and "sint (SecondEndos regionInfo) + sint maxEndoCount < 2 ^ 63"
  shows "(let name = canonName lower region;
              updateTime = (if isMinor then ri_LastMinor regionInfo else ri_LastMajor regionInfo);
              listed = fst (check_region lower isMinor maxEndoCount approval region regionInfo hittable)
          in (listed = hittable @
                [\<lparr>Name = name, Delegate = approval, SecondNation = '''', IsDeltip = False,
                  UpdateTime = updateTime, TriggerRegion = '''', TriggerTime = 0\<rparr>]
                \<longleftrightarrow> sint (DelEndos regionInfo) < sint maxEndoCount)
           \<and> (listed = hittable @
                [\<lparr>Name = name, Delegate = approval, SecondNation = ri_SecondNation regionInfo,
                  IsDeltip = True, UpdateTime = updateTime, TriggerRegion = '''', TriggerTime = 0\<rparr>]
                \<longleftrightarrow> sint maxEndoCount \<le> sint (DelEndos regionInfo) \<and>
                    sint (DelEndos regionInfo) < sint maxEndoCount + sint (SecondEndos regionInfo))
           \<and> (listed = hittable
                \<longleftrightarrow> sint maxEndoCount \<le> sint (DelEndos regionInfo) \<and>
                    sint maxEndoCount + sint (SecondEndos regionInfo) \<le> sint (DelEndos regionInfo)))
       \<and> fst (check_region id False 5 ''delegate'' ''Some Region''
              \<lparr>DelEndos = 4, SecondEndos = 2, ri_SecondNation = ''runner'', Password = False,
               ri_LastMajor = 1010, ri_LastMinor = 510\<rparr> [])
          = [\<lparr>Name = ''some_region'', Delegate = ''delegate'', SecondNation = '''', IsDeltip = False,
              UpdateTime = 1010, TriggerRegion = '''', TriggerTime = 0\<rparr>]
       \<and> fst (check_region id False 5 ''delegate'' ''Some Region''
              \<lparr>DelEndos = 6, SecondEndos = 2, ri_SecondNation = ''runner'', Password = False,
               ri_LastMajor = 1010, ri_LastMinor = 510\<rparr> [])
          = [\<lparr>Name = ''some_region'', Delegate = ''delegate'', SecondNation = ''runner'',
              IsDeltip = True, UpdateTime = 1010, TriggerRegion = '''', TriggerTime = 0\<rparr>]
       \<and> fst (check_region id False 5 ''delegate'' ''Some Region''
              \<lparr>DelEndos = 8, SecondEndos = 2, ri_SecondNation = ''runner'', Password = False,
               ri_LastMajor = 1010, ri_LastMinor = 510\<rparr> [])
          = []"
proof -
  let ?name = "canonName lower region"
  let ?time = "if isMinor then ri_LastMinor regionInfo else ri_LastMajor regionInfo"
  let ?direct = "\<lparr>Name = ?name, Delegate = approval, SecondNation = '''', IsDeltip = False,
                  UpdateTime = ?time, TriggerRegion = '''', TriggerTime = 0\<rparr>"
  let ?deltip = "\<lparr>Name = ?name, Delegate = approval, SecondNation = ri_SecondNation regionInfo,
                  IsDeltip = True, UpdateTime = ?time, TriggerRegion = '''', TriggerTime = 0\<rparr>"
  let ?listed = "fst (check_region lower isMinor maxEndoCount approval region regionInfo hittable)"
  have sum: "sint (SecondEndos regionInfo + maxEndoCount)
      = sint maxEndoCount + sint (SecondEndos regionInfo)"
    using sint_sum [OF assms(2,3)] by simp
  have below: "DelEndos regionInfo <s maxEndoCount \<longleftrightarrow> sint (DelEndos regionInfo) < sint maxEndoCount"
    by (simp add: word_sless_alt)
  have tip: "DelEndos regionInfo <s SecondEndos regionInfo + maxEndoCount
      \<longleftrightarrow> sint (DelEndos regionInfo) < sint maxEndoCount + sint (SecondEndos regionInfo)"
    by (simp add: word_sless_alt sum)
  have listed: "?listed =
      (if DelEndos regionInfo <s maxEndoCount then hittable @ [?direct]
       else if DelEndos regionInfo <s SecondEndos regionInfo + maxEndoCount then hittable @ [?deltip]
       else hittable)"
    using assms(1) by (simp add: check_region_def Let_def direct_hit_def deltip_hit_def)
  have differ: "?direct \<noteq> ?deltip" by simp
  have direct: "?listed = hittable @ [?direct] \<longleftrightarrow> sint (DelEndos regionInfo) < sint maxEndoCount"
    unfolding listed below [symmetric] using differ by auto
  have deltip: "?listed = hittable @ [?deltip] \<longleftrightarrow>
      sint maxEndoCount \<le> sint (DelEndos regionInfo) \<and>
      sint (DelEndos regionInfo) < sint maxEndoCount + sint (SecondEndos regionInfo)"
    unfolding listed using differ below tip by auto
  have none: "?listed = hittable \<longleftrightarrow>
      sint maxEndoCount \<le> sint (DelEndos regionInfo) \<and>
      sint maxEndoCount + sint (SecondEndos regionInfo) \<le> sint (DelEndos regionInfo)"
    unfolding listed using below tip by auto
  have four: "fst (check_region id False 5 ''delegate'' ''Some Region''
              \<lparr>DelEndos = 4, SecondEndos = 2, ri_SecondNation = ''runner'', Password = False,
               ri_LastMajor = 1010, ri_LastMinor = 510\<rparr> [])
          = [\<lparr>Name = ''some_region'', Delegate = ''delegate'', SecondNation = '''', IsDeltip = False,
              UpdateTime = 1010, TriggerRegion = '''', TriggerTime = 0\<rparr>]"
    by (simp add: ranker_defs)
  have six: "fst (check_region id False 5 ''delegate'' ''Some Region''
              \<lparr>DelEndos = 6, SecondEndos = 2, ri_SecondNation = ''runner'', Password = False,
               ri_LastMajor = 1010, ri_LastMinor = 510\<rparr> [])
          = [\<lparr>Name = ''some_region'', Delegate = ''delegate'', SecondNation = ''runner'',
              IsDeltip = True, UpdateTime = 1010, TriggerRegion = '''', TriggerTime = 0\<rparr>]"
    by (simp add: ranker_defs)
  have eight: "fst (check_region id False 5 ''delegate'' ''Some Region''
              \<lparr>DelEndos = 8, SecondEndos = 2, ri_SecondNation = ''runner'', Password = False,
               ri_LastMajor = 1010, ri_LastMinor = 510\<rparr> [])
          = []"
    by (simp add: ranker_defs)
  from direct deltip none four six eight show ?thesis
    unfolding Let_def by blast
qed

theorem check_region_classes_witness:
  "\<not> Password \<lparr>DelEndos = 7, SecondEndos = 3, ri_SecondNation = ''runner'', Password = False,
               ri_LastMajor = 1010, ri_LastMinor = 510\<rparr>
   \<and> - (2 ^ 63) \<le> sint (3 :: int64) + sint (5 :: int64)
   \<and> sint (3 :: int64) + sint (5 :: int64) < 2 ^ 63
   \<and> sint (5 :: int64) \<le> sint (7 :: int64)
   \<and> sint (7 :: int64) < sint (5 :: int64) + sint (3 :: int64)
   \<and> fst (check_region id True 5 ''delegate'' ''The North Pacific''
          \<lparr>DelEndos = 7, SecondEndos = 3, ri_SecondNation = ''runner'', Password = False,
           ri_LastMajor = 1010, ri_LastMinor = 510\<rparr>
          [direct_hit ''first'' ''other'' 400])
      = [direct_hit ''first'' ''other'' 400,
         \<lparr>Name = ''the_north_pacific'', Delegate = ''delegate'', SecondNation = ''runner'',
          IsDeltip = True, UpdateTime = 510, TriggerRegion = '''', TriggerTime = 0\<rparr>]"
proof -
  let ?info = "\<lparr>DelEndos = 7, SecondEndos = 3, ri_SecondNation = ''runner'', Password = False,
               ri_LastMajor = 1010, ri_LastMinor = 510\<rparr>"
  have open_region: "\<not> Password ?info" by simp
  have low: "- (2 ^ 63) \<le> sint (SecondEndos ?info) + sint (5 :: int64)"
    and high: "sint (SecondEndos ?info) + sint (5 :: int64) < 2 ^ 63"
    by simp_all
  have above: "sint (5 :: int64) \<le> sint (7 :: int64)"
    and below: "sint (7 :: int64) < sint (5 :: int64) + sint (3 :: int64)"
    by simp_all
  have name: "canonName id ''The North Pacific'' = ''the_north_pacific''"
    by (simp add: canonName_def ToLower_def)
  from check_region_classes [OF open_region low high, of id "''The North Pacific''" True "''delegate''"
      "[direct_hit ''first'' ''other'' 400]"] above below
  have "fst (check_region id True 5 ''delegate'' ''The North Pacific'' ?info
          [direct_hit ''first'' ''other'' 400])
      = [direct_hit ''first'' ''other'' 400]
          @ [\<lparr>Name = canonName id ''The North Pacific'', Delegate = ''delegate'',
               SecondNation = ''runner'', IsDeltip = True, UpdateTime = 510,
               TriggerRegion = '''', TriggerTime = 0\<rparr>]"
    by (simp add: Let_def)
  with open_region above below name show ?thesis by simp
qed

text \<open>
  Claim C3 as stated fails where the sum wraps around: with a maximum of 5, a delegate
  with 8 endorsements and a runner-up with 9223372036854775807, the delegate is not below
  the maximum and is below the maximum plus the runner-up's count, yet the ranker appends
  nothing.
\<close>

theorem wrapped_sum_excludes:
  "check_region id False 5 ''delegate'' ''Some Region''
     \<lparr>DelEndos = 8, SecondEndos = 9223372036854775807, ri_SecondNation = ''runner'',
      Password = False, ri_LastMajor = 1010, ri_LastMinor = 510\<rparr> []
   = ([], [Sleep 1500000000])
   \<and> \<not> sint (8 :: int64) < sint (5 :: int64)
   \<and> sint (8 :: int64) < sint (5 :: int64) + sint (9223372036854775807 :: int64)"
  by (simp add: ranker_defs)

end
